theory Spec2Isabelle
  imports Main
begin

section \<open>Strings of the wire protocol and of job files\<close>

text \<open>
  A JavaScript string is modelled by the bytes of its UTF-8 text (\<^typ>\<open>string\<close>). The
  separators the code splits on (\<open>;\<close>, line feed, carriage return) are ASCII, and an
  ASCII byte occurs in UTF-8 text only as itself, so splitting the bytes is splitting the
  string.
\<close>

definition LF :: char where
  "LF = CHR 0x0A"

definition CR :: char where
  "CR = CHR 0x0D"

text \<open>
  \<open>String.prototype.split(sep)\<close> for a separator of one character: the pieces between
  the occurrences of \<open>sep\<close>; a string without the separator (the empty string too) gives
  one piece. The result is never empty, so the first case of the \<open>case\<close> is not reached.
\<close>

fun js_split :: "char \<Rightarrow> string \<Rightarrow> string list" where
  "js_split sep [] = [[]]"
| "js_split sep (c # cs) =
     (if c = sep then [] # js_split sep cs
      else (case js_split sep cs of
              [] \<Rightarrow> [[c]]
            | s # ss \<Rightarrow> (c # s) # ss))"

text \<open>\<open>_.last(array)\<close> of underscore: the last element, \<open>undefined\<close> for an empty array.\<close>

definition underscore_last :: "'a list \<Rightarrow> 'a option" where
  "underscore_last xs = (if xs = [] then None else Some (last xs))"

text \<open>\<open>array[0]\<close>: the first element, \<open>undefined\<close> for an empty array.\<close>

definition index0 :: "'a list \<Rightarrow> 'a option" where
  "index0 xs = (case xs of [] \<Rightarrow> None | x # _ \<Rightarrow> Some x)"

text \<open>
  \<open>Bot.validateReply(command, reply)\<close>:
  \<^verbatim>\<open>const lines = reply.toString().split('\n'); return (_.last(lines) === 'ok');\<close>
\<close>

definition validateReply :: "string \<Rightarrow> string \<Rightarrow> bool" where
  "validateReply command reply =
     (let lines = js_split LF reply in underscore_last lines = Some ''ok'')"

text \<open>\<open>Bot.expandCode(code)\<close>: the command followed by one line feed.\<close>

definition expandCode :: "string \<Rightarrow> string" where
  "expandCode code = code @ [LF]"

text \<open>
  The line handler's \<^verbatim>\<open>const strippedLine = line.split(';')[0];\<close>
\<close>

definition strippedLine :: "string \<Rightarrow> string option" where
  "strippedLine line = index0 (js_split CHR '';'' line)"

text \<open>
  The comment stripping in the words of the specification: the content of a line at and
  after the first \<open>;\<close> is discarded. It is compared with \<open>strippedLine\<close> below.
\<close>

definition strip_comment :: "string \<Rightarrow> string" where
  "strip_comment line = takeWhile (\<lambda>c. c \<noteq> CHR '';'') line"

text \<open>Decimal rendering of a number inside a template string.\<close>

definition digit :: "nat \<Rightarrow> char" where
  "digit d = char_of (48 + d)"

function decimal :: "nat \<Rightarrow> string" where
  "decimal n = (if n < 10 then [digit n] else decimal (n div 10) @ [digit (n mod 10)])"
  by pat_completeness auto
termination
  by (relation "measure id") auto

declare decimal.simps [simp del]

section \<open>The pre-scan of the raw file and the line source\<close>

text \<open>
  The pre-scan of \<open>startJob\<close> splits every chunk of the read stream with the regular
  expression \<^verbatim>\<open>/\r\n|[\n\r\u0085\u2028\u2029]/g\<close> and adds up \<open>length - 1\<close>, which
  is the number of separators of the chunk. On the bytes of the text, U+0085 is
  \<open>C2 85\<close>, U+2028 is \<open>E2 80 A8\<close> and U+2029 is \<open>E2 80 A9\<close>. \<open>sep_len s\<close> is the
  length of the separator that \<open>s\<close> starts with, 0 when it starts with none.
\<close>

fun sep_len :: "string \<Rightarrow> nat" where
  "sep_len [] = 0"
| "sep_len (c # cs) =
     (if c = CR then (case cs of [] \<Rightarrow> 1 | d # _ \<Rightarrow> if d = LF then 2 else 1)
      else if c = LF then 1
      else if c = CHR 0xC2 then (case cs of [] \<Rightarrow> 0 | d # _ \<Rightarrow> if d = CHR 0x85 then 2 else 0)
      else if c = CHR 0xE2 then
        (case cs of
           d # e # _ \<Rightarrow> if d = CHR 0x80 \<and> (e = CHR 0xA8 \<or> e = CHR 0xA9) then 3 else 0
         | _ \<Rightarrow> 0)
      else 0)"

function count_separators :: "string \<Rightarrow> nat" where
  "count_separators s =
     (if s = [] then 0
      else if sep_len s = 0 then count_separators (tl s)
      else Suc (count_separators (drop (sep_len s) s)))"
  by pat_completeness auto
termination
  by (relation "measure length") auto

declare count_separators.simps [simp del]

text \<open>
  \<^verbatim>\<open>numLines += chunk.toString('utf8').split(...).length - 1;\<close> over the chunks
  of the stream, starting from \<^verbatim>\<open>let numLines = 0\<close>.
\<close>

definition prescan :: "string list \<Rightarrow> nat" where
  "prescan chunks = fold (\<lambda>chunk numLines. numLines + count_separators chunk) chunks 0"

text \<open>
  Modelled from the spec: the line source (the \<open>line-by-line\<close> package, which is not
  part of the sources) reads the file line by line. Its lines are the pieces of the
  text between the line ends \<open>\n\<close>, \<open>\r\n\<close> and \<open>\r\<close>; what follows the last line end
  is a line when it is not empty.
\<close>

fun lr_pieces :: "string \<Rightarrow> string list" where
  "lr_pieces [] = [[]]"
| "lr_pieces (c # cs) =
     (if c = CR \<and> cs \<noteq> [] \<and> hd cs = LF then [] # lr_pieces (tl cs)
      else if c = CR \<or> c = LF then [] # lr_pieces cs
      else (case lr_pieces cs of
              [] \<Rightarrow> [[c]]
            | s # ss \<Rightarrow> (c # s) # ss))"

definition lr_split :: "string \<Rightarrow> string list" where
  "lr_split text =
     (let pieces = lr_pieces text
      in if last pieces = [] then butlast pieces else pieces)"

section \<open>The lifecycle state machine\<close>

datatype fsm_state =
  unavailable | detecting | ready | connecting | connected | startingJob
  | processingJob | stopping | processingGcode | disconnecting

datatype fsm_event =
  ev_detect | ev_detectFail | ev_detectDone
  | ev_connect | ev_connectFail | ev_connectDone
  | ev_start | ev_startFail | ev_startDone
  | ev_stop | ev_stopDone | ev_stopFail
  | ev_jobToGcode | ev_jobGcodeFail | ev_jobGcodeDone
  | ev_connectedToGcode | ev_connectedGcodeFail | ev_connectedGcodeDone
  | ev_disconnect | ev_disconnectFail | ev_disconnectDone
  | ev_unplug

fun state_name :: "fsm_state \<Rightarrow> string" where
  "state_name unavailable = ''unavailable''"
| "state_name detecting = ''detecting''"
| "state_name ready = ''ready''"
| "state_name connecting = ''connecting''"
| "state_name connected = ''connected''"
| "state_name startingJob = ''startingJob''"
| "state_name processingJob = ''processingJob''"
| "state_name stopping = ''stopping''"
| "state_name processingGcode = ''processingGcode''"
| "state_name disconnecting = ''disconnecting''"

fun event_name :: "fsm_event \<Rightarrow> string" where
  "event_name ev_detect = ''detect''"
| "event_name ev_detectFail = ''detectFail''"
| "event_name ev_detectDone = ''detectDone''"
| "event_name ev_connect = ''connect''"
| "event_name ev_connectFail = ''connectFail''"
| "event_name ev_connectDone = ''connectDone''"
| "event_name ev_start = ''start''"
| "event_name ev_startFail = ''startFail''"
| "event_name ev_startDone = ''startDone''"
| "event_name ev_stop = ''stop''"
| "event_name ev_stopDone = ''stopDone''"
| "event_name ev_stopFail = ''stopFail''"
| "event_name ev_jobToGcode = ''jobToGcode''"
| "event_name ev_jobGcodeFail = ''jobGcodeFail''"
| "event_name ev_jobGcodeDone = ''jobGcodeDone''"
| "event_name ev_connectedToGcode = ''connectedToGcode''"
| "event_name ev_connectedGcodeFail = ''connectedGcodeFail''"
| "event_name ev_connectedGcodeDone = ''connectedGcodeDone''"
| "event_name ev_disconnect = ''disconnect''"
| "event_name ev_disconnectFail = ''disconnectFail''"
| "event_name ev_disconnectDone = ''disconnectDone''"
| "event_name ev_unplug = ''unplug''"

text \<open>The \<open>from\<close> of an edge: one state, or \<open>'*'\<close> for every state.\<close>

datatype from_spec = From fsm_state | Wildcard

type_synonym edge = "fsm_event \<times> from_spec \<times> fsm_state"

text \<open>The \<open>events\<close> table of the constructor, in its order: name, from, to.\<close>

definition events :: "edge list" where
  "events =
    [(ev_detect,             From unavailable,     detecting),
     (ev_detectFail,         From detecting,       unavailable),
     (ev_detectDone,         From detecting,       ready),
     (ev_connect,            From ready,           connecting),
     (ev_connectFail,        From connecting,      ready),
     (ev_connectDone,        From connecting,      connected),
     (ev_start,              From connected,       startingJob),
     (ev_startFail,          From startingJob,     connected),
     (ev_startDone,          From startingJob,     processingJob),
     (ev_stop,               From processingJob,   stopping),
     (ev_stopDone,           From stopping,        connected),
     (ev_stopFail,           From stopping,        connected),
     (ev_jobToGcode,         From processingJob,   processingGcode),
     (ev_jobGcodeFail,       From processingGcode, processingJob),
     (ev_jobGcodeDone,       From processingGcode, processingJob),
     (ev_connectedToGcode,   From connected,       processingGcode),
     (ev_connectedGcodeFail, From processingGcode, connected),
     (ev_connectedGcodeDone, From processingGcode, connected),
     (ev_disconnect,         From connected,       disconnecting),
     (ev_disconnectFail,     From disconnecting,   connected),
     (ev_disconnectDone,     From disconnecting,   ready),
     (ev_unplug,             Wildcard,             unavailable)]"

text \<open>A (state, event) pair is declared when the table has an edge of that event from
  that state or from the wildcard.\<close>

definition declared :: "fsm_state \<Rightarrow> fsm_event \<Rightarrow> fsm_state \<Rightarrow> bool" where
  "declared s e t = ((e, From s, t) \<in> set events \<or> (e, Wildcard, t) \<in> set events)"

section \<open>The Bot\<close>

datatype exn = Thrown string | TypeError

datatype log_entry =
  logger_error "string list" | logger_info "string list" | console_log "string list"

text \<open>A payload handed to \<open>queueCommands\<close>: raw command text, or the directive
  \<^verbatim>\<open>{ open: true }\<close>.\<close>

datatype payload = raw string | open_directive

text \<open>
  Modelled from the spec: the Job entity is not part of the sources. It has a file
  identifier, a run-state (running, paused, completed, canceled) and an elapsed-time
  tracker that is started and stopped.
\<close>

datatype job_state = job_running | job_paused | job_completed | job_canceled

record job =
  fileId :: nat
  job_fsm_current :: job_state
  stopwatch_running :: bool

text \<open>
  The line source held in \<open>this.lr\<close>: the path it reads, the lines it has not delivered
  yet, and whether it is paused.
\<close>

record line_reader =
  lr_path :: string
  lr_lines :: "string list"
  lr_paused :: bool

record device_descriptor =
  bLength :: nat
  bDescriptorType :: nat
  bcdUSB :: nat
  bDeviceClass :: nat
  bDeviceSubClass :: nat
  bDeviceProtocol :: nat
  bMaxPacketSize0 :: nat
  idVendor :: nat
  idProduct :: nat
  bcdDevice :: nat
  iManufacturer :: nat
  iProduct :: nat
  iSerialNumber :: nat
  bNumConfigurations :: nat

record usb_device =
  busNumber :: nat
  deviceAddress :: nat
  deviceDescriptor :: device_descriptor
  portNumbers :: "nat list"

text \<open>
  Modelled from the spec: the CommandQueue (\<open>commandQueue3\<close>) is not part of the
  sources. It holds its entries in the order in which \<open>queueCommands\<close> received them:
  \<open>queueCommands(payload)\<close> appends an entry for the payload, and a new queue is empty.
\<close>

definition new_CommandQueue :: "payload list" where
  "new_CommandQueue = []"

definition queueCommands :: "payload \<Rightarrow> payload list \<Rightarrow> payload list" where
  "queueCommands p q = q @ [p]"

text \<open>What is left of an operation that waits in \<open>Promise.delay(config.virtualDelay)\<close>.\<close>

datatype pending = connect_delay | disconnect_delay

text \<open>
  The fields of the Bot (\<open>None\<close> is \<open>undefined\<close>), the current state of its state
  machine, and what the Bot has done to its surroundings: the notifications sent with
  \<open>app.io.emit\<close>, the lines written to the logger and the console, and the delays it
  waits in.
\<close>

record bot =
  virtual :: bool
  queue :: "payload list option"
  currentJob :: "job option"
  lr :: "line_reader option"
  currentLine :: "nat option"
  numLines :: "nat option"
  device :: "usb_device option"
  port :: "string option"
  fsm_current :: fsm_state
  io_emitted :: "(string \<times> string) list"
  log_out :: "log_entry list"
  delays :: "pending list"

text \<open>The Bot as the constructor leaves it.\<close>

definition new_bot :: bot where
  "new_bot =
     \<lparr> virtual = False, queue = None, currentJob = None, lr = None, currentLine = None,
       numLines = None, device = None, port = None, fsm_current = unavailable,
       io_emitted = [], log_out = [], delays = [] \<rparr>"

subsection \<open>The callbacks of the state machine\<close>

text \<open>
  The \<open>error\<close> callback:
  \<^verbatim>\<open>const errorMessage = `Invalid state change action "${one}". State at "${two}".`;
  this.logger.error(errorMessage); throw errorMessage;\<close>
\<close>

definition fsm_error :: "string \<Rightarrow> string \<Rightarrow> bot \<Rightarrow> (exn + unit) \<times> bot" where
  \<open>fsm_error one two b =
     (let errorMessage =
            ''Invalid state change action "'' @ one @ ''". State at "'' @ two @ ''".''
      in (Inl (Thrown errorMessage),
          b\<lparr>log_out := log_out b @ [logger_error [errorMessage]]\<rparr>))\<close>

text \<open>
  The \<open>onenterstate\<close> callback:
  \<^verbatim>\<open>this.app.io.emit(`stateChange`, to);
  this.logger.info(`Bot event ${event}: Transitioning from ${from} to ${to}.`);\<close>
\<close>

definition onenterstate :: "string \<Rightarrow> string \<Rightarrow> string \<Rightarrow> bot \<Rightarrow> bot" where
  "onenterstate event frm to b =
     b\<lparr>io_emitted := io_emitted b @ [(''stateChange'', to)],
       log_out := log_out b @
         [logger_info [''Bot event '' @ event @ '': Transitioning from '' @ frm @
                         '' to '' @ to @ ''.'']]\<rparr>"

text \<open>
  Modelled from the spec: the dispatch of an event is done by the
  \<open>javascript-state-machine\<close> package, which is not part of the sources. An event is
  looked up in the table for the current state, an edge from that state before the
  wildcard. An event that is not declared for the current state is given to the
  \<open>error\<close> callback of the constructor with the name of the event and of the state, and
  the state stays. A declared event moves the machine to the \<open>to\<close> of its edge and then
  runs the \<open>onenterstate\<close> callback with the event, the state left and the state entered.
\<close>

definition lookup_to :: "fsm_event \<Rightarrow> fsm_state \<Rightarrow> fsm_state option" where
  "lookup_to e s =
     (case find (\<lambda>(n, f, t). n = e \<and> f = From s) events of
        Some (n, f, t) \<Rightarrow> Some t
      | None \<Rightarrow>
          (case find (\<lambda>(n, f, t). n = e \<and> f = Wildcard) events of
             Some (n, f, t) \<Rightarrow> Some t
           | None \<Rightarrow> None))"

definition fsm_fire :: "fsm_event \<Rightarrow> bot \<Rightarrow> (exn + unit) \<times> bot" where
  "fsm_fire e b =
     (case lookup_to e (fsm_current b) of
        None \<Rightarrow> fsm_error (event_name e) (state_name (fsm_current b)) b
      | Some t \<Rightarrow>
          (Inr (),
           onenterstate (event_name e) (state_name (fsm_current b)) (state_name t)
             (b\<lparr>fsm_current := t\<rparr>)))"

subsection \<open>Lifecycle operations\<close>

text \<open>
  An \<open>async\<close> method runs until its first real wait. A value thrown inside it rejects
  its promise: \<open>Inl\<close> is the rejection, \<open>Inr\<close> the normal end of the part that ran. An
  \<open>await\<close> of a call that returns no promise (every call of the state machine) is the
  call itself. The Bot is driven by one flow of control, so nothing else runs between
  two steps of one part.
\<close>

record description =
  state :: fsm_state

text \<open>\<open>getBot()\<close>: \<^verbatim>\<open>return { state: this.fsm.current };\<close>\<close>

definition getBot :: "bot \<Rightarrow> description" where
  "getBot b = \<lparr> state = fsm_current b \<rparr>"

text \<open>The spoofed usb data of \<open>detect\<close> for a virtual device.\<close>

definition virtual_device :: usb_device where
  "virtual_device =
     \<lparr> busNumber = 20, deviceAddress = 19,
       deviceDescriptor =
         \<lparr> bLength = 18, bDescriptorType = 1, bcdUSB = 512, bDeviceClass = 2,
           bDeviceSubClass = 0, bDeviceProtocol = 0, bMaxPacketSize0 = 32,
           idVendor = 5824, idProduct = 1155, bcdDevice = 256, iManufacturer = 1,
           iProduct = 2, iSerialNumber = 3, bNumConfigurations = 1 \<rparr>,
       portNumbers = [5] \<rparr>"

text \<open>
  \<open>detect(device)\<close>: \<open>this.fsm.detect()\<close> stands before the \<open>try\<close>; the body of the
  \<open>try\<close> sets the spoofed device of a virtual Bot or builds the CommandQueue of a
  physical one, then drives \<open>detectDone\<close>; the \<open>catch\<close> drives \<open>detectFail\<close>.
\<close>

definition detect_try :: "bot \<Rightarrow> (exn + unit) \<times> bot" where
  "detect_try b =
     fsm_fire ev_detectDone
       (if virtual b then b\<lparr>device := Some virtual_device\<rparr>
        else b\<lparr>queue := Some new_CommandQueue\<rparr>)"

definition detect :: "bot \<Rightarrow> (exn + unit) \<times> bot" where
  "detect b =
     (case fsm_fire ev_detect b of
        (Inl x, b1) \<Rightarrow> (Inl x, b1)
      | (Inr _, b1) \<Rightarrow>
          (case detect_try b1 of
             (Inl ex, b2) \<Rightarrow> fsm_fire ev_detectFail b2
           | (Inr u, b2) \<Rightarrow> (Inr u, b2)))"

text \<open>\<open>unplug()\<close>: \<^verbatim>\<open>this.device = undefined; await this.fsm.unplug();\<close>\<close>

definition unplug :: "bot \<Rightarrow> (exn + unit) \<times> bot" where
  "unplug b = fsm_fire ev_unplug (b\<lparr>device := None\<rparr>)"

text \<open>
  \<open>connect()\<close>, up to its first wait. A virtual Bot waits in
  \<open>Promise.delay(config.virtualDelay)\<close> and goes on in \<open>connect_resume\<close>; a physical
  Bot queues \<^verbatim>\<open>{ open: true }\<close> (a TypeError when \<open>this.queue\<close> is undefined) and
  drives \<open>connectDone\<close>. Whatever the \<open>try\<close> throws, the \<open>catch\<close> drives \<open>connectFail\<close>.
\<close>

definition connect_try :: "bot \<Rightarrow> (exn + unit) \<times> bot" where
  "connect_try b =
     (case fsm_fire ev_connect b of
        (Inl x, b1) \<Rightarrow> (Inl x, b1)
      | (Inr _, b1) \<Rightarrow>
          if virtual b1 then (Inr (), b1\<lparr>delays := delays b1 @ [connect_delay]\<rparr>)
          else (case queue b1 of
                  None \<Rightarrow> (Inl TypeError, b1)
                | Some q \<Rightarrow> fsm_fire ev_connectDone
                      (b1\<lparr>queue := Some (queueCommands open_directive q)\<rparr>)))"

definition connect :: "bot \<Rightarrow> (exn + unit) \<times> bot" where
  "connect b =
     (case connect_try b of
        (Inl ex, b1) \<Rightarrow> fsm_fire ev_connectFail b1
      | (Inr u, b1) \<Rightarrow> (Inr u, b1))"

definition connect_resume :: "bot \<Rightarrow> (exn + unit) \<times> bot" where
  "connect_resume b =
     (case fsm_fire ev_connectDone b of
        (Inl ex, b1) \<Rightarrow> fsm_fire ev_connectFail b1
      | (Inr u, b1) \<Rightarrow> (Inr u, b1))"

text \<open>
  \<open>disconnect()\<close>, up to its first wait: both branches wait in
  \<open>Promise.delay(config.virtualDelay)\<close> and then drive \<open>disconnectDone\<close>; the \<open>catch\<close>
  drives \<open>disconnectFail\<close>.
\<close>

definition disconnect_try :: "bot \<Rightarrow> (exn + unit) \<times> bot" where
  "disconnect_try b =
     (case fsm_fire ev_disconnect b of
        (Inl x, b1) \<Rightarrow> (Inl x, b1)
      | (Inr _, b1) \<Rightarrow> (Inr (), b1\<lparr>delays := delays b1 @ [disconnect_delay]\<rparr>))"

definition disconnect :: "bot \<Rightarrow> (exn + unit) \<times> bot" where
  "disconnect b =
     (case disconnect_try b of
        (Inl ex, b1) \<Rightarrow> fsm_fire ev_disconnectFail b1
      | (Inr u, b1) \<Rightarrow> (Inr u, b1))"

definition disconnect_resume :: "bot \<Rightarrow> (exn + unit) \<times> bot" where
  "disconnect_resume b =
     (case fsm_fire ev_disconnectDone b of
        (Inl ex, b1) \<Rightarrow> fsm_fire ev_disconnectFail b1
      | (Inr u, b1) \<Rightarrow> (Inr u, b1))"

text \<open>The oldest delay ends: the operation that waits in it goes on.\<close>

definition delay_done :: "bot \<Rightarrow> (exn + unit) \<times> bot" where
  "delay_done b =
     (case delays b of
        [] \<Rightarrow> (Inr (), b)
      | connect_delay # ds \<Rightarrow> connect_resume (b\<lparr>delays := ds\<rparr>)
      | disconnect_delay # ds \<Rightarrow> disconnect_resume (b\<lparr>delays := ds\<rparr>))"

text \<open>
  \<open>processCommand(command)\<close>. \<open>detect\<close>, \<open>connect\<close> and \<open>disconnect\<close> are called
  without \<open>await\<close>: a rejection of theirs is not seen here, and the description is read
  when their first part has run. \<open>unplug\<close> is awaited: its rejection is rethrown.
\<close>

definition processCommand :: "string \<Rightarrow> bot \<Rightarrow> (exn + description) \<times> bot" where
  \<open>processCommand command b =
     (if command = ''createVirtualBot'' then
        (if \<not> virtual b then
           (let b1 = snd (detect (b\<lparr>virtual := True\<rparr>)) in (Inr (getBot b1), b1))
         else (Inr (getBot b), b))
      else if command = ''destroyVirtualBot'' then
        (if virtual b then
           (case unplug b of
              (Inl x, b1) \<Rightarrow> (Inl x, b1)
            | (Inr _, b1) \<Rightarrow> (let b2 = b1\<lparr>virtual := False\<rparr> in (Inr (getBot b2), b2)))
         else (Inr (getBot b), b))
      else if command = ''connect'' then
        (let b1 = snd (connect b) in (Inr (getBot b1), b1))
      else if command = ''disconnect'' then
        (let b1 = snd (disconnect b) in (Inr (getBot b1), b1))
      else
        (let errorMessage = ''Command "'' @ command @ ''" is not supported.''
         in (Inl (Thrown errorMessage), b)))\<close>

subsection \<open>Streaming a job\<close>

text \<open>\<open>lr.pause()\<close> and \<open>lr.resume()\<close> on \<open>this.lr\<close>; a TypeError when it is undefined.\<close>

definition lr_set_paused :: "bool \<Rightarrow> bot \<Rightarrow> (exn + unit) \<times> bot" where
  "lr_set_paused p b =
     (case lr b of
        None \<Rightarrow> (Inl TypeError, b)
      | Some r \<Rightarrow> (Inr (), b\<lparr>lr := Some (r\<lparr>lr_paused := p\<rparr>)\<rparr>))"

text \<open>\<open>lr.close()\<close>: the lines not yet delivered are given up.\<close>

definition lr_close :: "bot \<Rightarrow> (exn + unit) \<times> bot" where
  "lr_close b =
     (case lr b of
        None \<Rightarrow> (Inl TypeError, b)
      | Some r \<Rightarrow> (Inr (), b\<lparr>lr := Some (r\<lparr>lr_lines := []\<rparr>)\<rparr>))"

text \<open>
  The handler of the \<open>line\<close> event. It pauses the line source, counts the line, strips
  the comment, resumes at once on an empty rest, and otherwise hands the rest to
  \<open>queueCommands\<close> and resumes only when the job is running.
\<close>

definition on_line :: "string \<Rightarrow> bot \<Rightarrow> (exn + unit) \<times> bot" where
  "on_line line b =
     (case lr_set_paused True b of
        (Inl x, b1) \<Rightarrow> (Inl x, b1)
      | (Inr _, b1) \<Rightarrow>
          (let b2 = b1\<lparr>currentLine := map_option Suc (currentLine b1)\<rparr>
           in case strippedLine line of
                None \<Rightarrow> (Inl TypeError, b2)
              | Some stripped \<Rightarrow>
                  if length stripped \<le> 0 then lr_set_paused False b2
                  else
                    (let b3 = b2\<lparr>log_out := log_out b2 @ [console_log [''a line!'', stripped]]\<rparr>
                     in case queue b3 of
                          None \<Rightarrow> (Inl TypeError, b3)
                        | Some q \<Rightarrow>
                            (let b4 = b3\<lparr>queue := Some (queueCommands (raw stripped) q)\<rparr>
                             in case currentJob b4 of
                                  None \<Rightarrow> (Inl TypeError, b4)
                                | Some j \<Rightarrow>
                                    if job_fsm_current j = job_running
                                    then lr_set_paused False b4
                                    else (Inr (), b4)))))"

text \<open>
  The handler of the \<open>end\<close> event: \<open>stop\<close>, close the line source, \<open>stopDone\<close>, complete
  the job and stop its stopwatch.
\<close>

definition on_end :: "bot \<Rightarrow> (exn + unit) \<times> bot" where
  "on_end b =
     (case fsm_fire ev_stop b of
        (Inl x, b1) \<Rightarrow> (Inl x, b1)
      | (Inr _, b1) \<Rightarrow>
          (case lr_close b1 of
             (Inl x, b2) \<Rightarrow> (Inl x, b2)
           | (Inr _, b2) \<Rightarrow>
               (let b3 = b2\<lparr>log_out := log_out b2 @
                              [logger_info [''completed reading file,'',
                                 (case lr b2 of None \<Rightarrow> [] | Some r \<Rightarrow> lr_path r),
                                 ''is closed now.'']]\<rparr>
                in case fsm_fire ev_stopDone b3 of
                     (Inl x, b4) \<Rightarrow> (Inl x, b4)
                   | (Inr _, b4) \<Rightarrow>
                       (case currentJob b4 of
                          None \<Rightarrow> (Inl TypeError, b4)
                        | Some j \<Rightarrow>
                            (Inr (),
                             b4\<lparr>currentJob :=
                                  Some (j\<lparr>job_fsm_current := job_completed,
                                          stopwatch_running := False\<rparr>)\<rparr>)))))"

text \<open>
  The line source delivers its lines one by one while it is not paused. A rejection of
  the handler is seen by nobody. What is returned are the lines that were not delivered.
\<close>

definition reader_paused :: "bot \<Rightarrow> bool" where
  "reader_paused b = (case lr b of None \<Rightarrow> True | Some r \<Rightarrow> lr_paused r)"

fun emit_lines :: "string list \<Rightarrow> bot \<Rightarrow> string list \<times> bot" where
  "emit_lines [] b = ([], b)"
| "emit_lines (l # ls) b =
     (if reader_paused b then (l # ls, b) else emit_lines ls (snd (on_line l b)))"

text \<open>
  The line source runs until it is paused or at its end; at the end of the file, when
  it is not paused, it sends \<open>end\<close>.
\<close>

definition lr_run :: "bot \<Rightarrow> bot" where
  "lr_run b =
     (case lr b of
        None \<Rightarrow> b
      | Some r \<Rightarrow>
          (case emit_lines (lr_lines r) b of
             (rest, b1) \<Rightarrow>
               (let b2 = (case lr b1 of
                            None \<Rightarrow> b1
                          | Some r1 \<Rightarrow> b1\<lparr>lr := Some (r1\<lparr>lr_lines := rest\<rparr>)\<rparr>)
                in if rest = [] \<and> \<not> reader_paused b2 then snd (on_end b2) else b2)))"

text \<open>
  The file catalog and the file system are not part of the sources: \<open>files\<close> gives, for
  a file identifier, the path of the file and the chunks its read stream delivers, and
  \<open>None\<close> when looking the file up or opening it throws.
\<close>

type_synonym catalog = "nat \<Rightarrow> (string \<times> string list) option"

text \<open>
  \<open>startJob(job)\<close>, with no \<open>try\<close> around any of its steps: \<open>start\<close>, the look-up of the
  file, a new paused line source with the cursor at 0, the pre-scan that sets
  \<open>numLines\<close>, then \<open>lr.resume()\<close> and \<open>startDone\<close>.
\<close>

definition startJob :: "catalog \<Rightarrow> job \<Rightarrow> bot \<Rightarrow> (exn + unit) \<times> bot" where
  "startJob files j b =
     (case fsm_fire ev_start (b\<lparr>currentJob := Some j\<rparr>) of
        (Inl x, b1) \<Rightarrow> (Inl x, b1)
      | (Inr _, b1) \<Rightarrow>
          (case files (fileId j) of
             None \<Rightarrow> (Inl TypeError, b1)
           | Some (filePath, chunks) \<Rightarrow>
               (let b2 = b1\<lparr>lr := Some \<lparr> lr_path = filePath,
                                          lr_lines = lr_split (concat chunks),
                                          lr_paused = True \<rparr>,
                              currentLine := Some 0\<rparr>;
                    n = prescan chunks;
                    b3 = b2\<lparr>numLines := Some n,
                            log_out := log_out b2 @
                              [logger_info [''Bot will process file with '' @ decimal n @
                                              '' lines.'']]\<rparr>
                in case lr_set_paused False b3 of
                     (Inl x, b4) \<Rightarrow> (Inl x, b4)
                   | (Inr _, b4) \<Rightarrow> fsm_fire ev_startDone b4)))"

text \<open>A whole job: \<open>startJob\<close>, then the line source runs.\<close>

definition runJob :: "catalog \<Rightarrow> job \<Rightarrow> bot \<Rightarrow> (exn + unit) \<times> bot" where
  "runJob files j b =
     (case startJob files j b of
        (Inl x, b1) \<Rightarrow> (Inl x, b1)
      | (Inr _, b1) \<Rightarrow> (Inr (), lr_run b1))"

text \<open>\<open>pauseJob()\<close>, \<open>resumeJob()\<close> and \<open>stopJob()\<close>.\<close>

definition pauseJob :: "bot \<Rightarrow> (exn + unit) \<times> bot" where
  "pauseJob b =
     (if fsm_current b \<noteq> connected then
        (case fsm_fire ev_stop b of
           (Inl x, b1) \<Rightarrow> (Inl x, b1)
         | (Inr _, b1) \<Rightarrow>
             (case lr_set_paused True b1 of
                (Inl x, b2) \<Rightarrow> (Inl x, b2)
              | (Inr _, b2) \<Rightarrow> fsm_fire ev_stopDone b2))
      else (Inr (), b))"

definition resumeJob :: "bot \<Rightarrow> (exn + unit) \<times> bot" where
  "resumeJob b =
     (if fsm_current b \<noteq> processingJob then
        (case fsm_fire ev_start b of
           (Inl x, b1) \<Rightarrow> (Inl x, b1)
         | (Inr _, b1) \<Rightarrow>
             (case lr_set_paused False b1 of
                (Inl x, b2) \<Rightarrow> (Inl x, b2)
              | (Inr _, b2) \<Rightarrow> fsm_fire ev_startDone b2))
      else (Inr (), b))"

definition stopJob :: "bot \<Rightarrow> (exn + unit) \<times> bot" where
  "stopJob b =
     (if fsm_current b \<noteq> connected then
        (case fsm_fire ev_stop b of
           (Inl x, b1) \<Rightarrow> (Inl x, b1)
         | (Inr _, b1) \<Rightarrow>
             (case lr_close b1 of
                (Inl x, b2) \<Rightarrow> (Inl x, b2)
              | (Inr _, b2) \<Rightarrow> fsm_fire ev_stopDone (b2\<lparr>lr := None\<rparr>)))
      else (Inr (), b))"

section \<open>Reachable states used below\<close>

text \<open>
  A physical Bot that was detected and connected: \<open>detect\<close> builds its CommandQueue,
  \<open>connect\<close> queues the open directive and reaches \<open>connected\<close>.
\<close>

definition connected_bot :: bot where
  "connected_bot = snd (processCommand ''connect'' (snd (detect new_bot)))"

definition running_job :: "nat \<Rightarrow> job" where
  "running_job fid = \<lparr> fileId = fid, job_fsm_current = job_running, stopwatch_running = True \<rparr>"

text \<open>A physical Bot that was detected, and a virtual Bot that was created.\<close>

definition ready_bot :: bot where
  "ready_bot = snd (detect new_bot)"

definition virtual_bot :: bot where
  "virtual_bot = snd (processCommand ''createVirtualBot'' new_bot)"

text \<open>
  The virtual Bot after \<open>connect\<close> and the end of the delay that \<open>connect\<close> waits in.
\<close>

definition connected_virtual_bot :: bot where
  "connected_virtual_bot = snd (delay_done (snd (processCommand ''connect'' virtual_bot)))"

text \<open>
  A catalog of two files. File 1 has five lines that end in a line feed: three commands,
  a comment and a blank line. File 2 is the one command \<open>G1\<close> with no line feed after it.
  No other identifier is known.
\<close>

definition example_catalog :: catalog where
  "example_catalog fid =
     (if fid = 1 then
        Some (''/files/five.gcode'',
              [''G28'' @ [LF] @ ''; home first'' @ [LF] @ [LF] @ ''G1 X10 ; move'' @ [LF] @
               ''M84'' @ [LF]])
      else if fid = 2 then Some (''/files/one.gcode'', [''G1''])
      else None)"

section \<open>Reply validation and comment stripping\<close>

lemma js_split_not_Nil: "js_split sep s \<noteq> []"
  by (induction s) (auto split: list.splits)

lemma index0_js_split: "index0 (js_split sep s) = Some (takeWhile (\<lambda>c. c \<noteq> sep) s)"
  by (induction s) (auto simp: index0_def split: list.splits)

lemma strippedLine_eq: "strippedLine line = Some (strip_comment line)"
  by (simp add: strippedLine_def strip_comment_def index0_js_split)

text \<open>
  C3. The reply validation is meant to acknowledge a reply whose last line is \<open>ok\<close>, also
  with DOS line ends. The code takes the last piece of the split at line feeds, which is
  empty when the reply ends in a line feed and keeps the carriage return otherwise: the
  reply \<open>T:200\r\nok\r\n\<close> is not acknowledged. The reply \<open>T:200\r\nerror\r\n\<close> is
  not acknowledged either, and \<open>T:200\r\nok\<close>, with nothing after \<open>ok\<close>, is.
\<close>

theorem validateReply_dos_reply_rejected:
  "validateReply command (''T:200'' @ [CR, LF] @ ''ok'' @ [CR, LF]) = False
   \<and> validateReply command (''T:200'' @ [CR, LF] @ ''error'' @ [CR, LF]) = False
   \<and> validateReply command (''T:200'' @ [CR, LF] @ ''ok'') = True"
  by (simp add: validateReply_def underscore_last_def CR_def LF_def)

text \<open>
  C10. Whether a reply is acknowledged depends on the reply only, not on the command
  that was sent.
\<close>

theorem validateReply_ignores_command: "validateReply c1 r = validateReply c2 r"
  by (simp add: validateReply_def)

text \<open>
  C5, as stated, fails: the line \<open>G1 X10 ; move\<close> does not strip to \<open>G1 X10\<close>, because
  the space before the \<open>;\<close> is kept.
\<close>

theorem strippedLine_keeps_space: "strippedLine ''G1 X10 ; move'' \<noteq> Some ''G1 X10''"
  by (simp add: strippedLine_eq strip_comment_def)

text \<open>
  C5, amended. For every line, stripping keeps exactly what stands before the first
  \<open>;\<close> and trims nothing: \<open>G1 X10 ; move\<close> strips to \<open>G1 X10 \<close> with the space, and
  \<open>;comment\<close> strips to the empty string; the line handler hands nothing to the
  CommandQueue for it, whatever the Bot.
\<close>

theorem strippedLine_first_semicolon:
  "strippedLine line = Some (takeWhile (\<lambda>c. c \<noteq> CHR '';'') line)
   \<and> strippedLine ''G1 X10 ; move'' = Some ''G1 X10 ''
   \<and> strippedLine '';comment'' = Some []
   \<and> queue (snd (on_line '';comment'' b)) = queue b"
  by (simp add: strippedLine_eq strip_comment_def on_line_def lr_set_paused_def
      split: option.splits)

section \<open>The transitions of the state machine\<close>

lemma lookup_to_declared: "declared s e t \<Longrightarrow> lookup_to e s = Some t"
  unfolding declared_def events_def lookup_to_def
  by (cases s) auto

lemma lookup_to_Some: "lookup_to e s = Some t \<Longrightarrow> declared s e t"
  unfolding declared_def events_def lookup_to_def
  by (cases e; cases s) simp_all

lemma lookup_to_undeclared: "\<forall>t. \<not> declared s e t \<Longrightarrow> lookup_to e s = None"
  using lookup_to_Some by (cases "lookup_to e s") auto

lemma fsm_fire_ok:
  "lookup_to e (fsm_current b) = Some t \<Longrightarrow>
   fsm_fire e b =
     (Inr (), onenterstate (event_name e) (state_name (fsm_current b)) (state_name t)
                (b\<lparr>fsm_current := t\<rparr>))"
  by (simp add: fsm_fire_def)

lemma ready_bot_state: "fsm_current ready_bot = ready"
  by (simp add: ready_bot_def new_bot_def detect_def detect_try_def
      fsm_fire_def lookup_to_def events_def onenterstate_def Let_def)

text \<open>
  C1. For every edge of the table (an edge from the wildcard is an edge from every
  state), the event invoked in the \<open>from\<close> state ends without an exception in the \<open>to\<close>
  state, and sends exactly one \<open>stateChange\<close> notification, which carries the name of the
  new state; beyond that only one line is logged.
\<close>

theorem declared_event_transitions:
  "declared s e t \<Longrightarrow> fsm_current b = s \<Longrightarrow>
   fsm_fire e b =
     (Inr (),
      b\<lparr>fsm_current := t,
        io_emitted := io_emitted b @ [(''stateChange'', state_name t)],
        log_out := log_out b @
          [logger_info [''Bot event '' @ event_name e @ '': Transitioning from '' @
                          state_name s @ '' to '' @ state_name t @ ''.'']]\<rparr>)"
  by (simp add: fsm_fire_def lookup_to_declared onenterstate_def)

theorem declared_event_transitions_witness:
  "declared ready ev_connect connecting
   \<and> fst (fsm_fire ev_connect ready_bot) = Inr ()
   \<and> fsm_current (snd (fsm_fire ev_connect ready_bot)) = connecting
   \<and> io_emitted (snd (fsm_fire ev_connect ready_bot))
       = io_emitted ready_bot @ [(''stateChange'', ''connecting'')]"
proof -
  have d: "declared ready ev_connect connecting"
    by (simp add: declared_def events_def)
  show ?thesis
    using d declared_event_transitions [OF d ready_bot_state] by simp
qed

text \<open>
  C2. For every state and event that the table does not declare, the event invoked in
  that state throws the message of the \<open>error\<close> callback and logs it as an error; the
  state, and everything else of the Bot, is as before, and no notification is sent.
\<close>

theorem undeclared_event_throws:
  \<open>\<forall>t. \<not> declared (fsm_current b) e t \<Longrightarrow>
   fsm_fire e b =
     (Inl (Thrown (''Invalid state change action "'' @ event_name e @ ''". State at "'' @
                     state_name (fsm_current b) @ ''".'')),
      b\<lparr>log_out := log_out b @
          [logger_error [''Invalid state change action "'' @ event_name e @
                           ''". State at "'' @ state_name (fsm_current b) @ ''".'']]\<rparr>)\<close>
  by (simp add: fsm_fire_def lookup_to_undeclared fsm_error_def Let_def)

theorem undeclared_event_throws_witness:
  \<open>(\<forall>t. \<not> declared ready ev_stop t)
   \<and> fst (fsm_fire ev_stop ready_bot)
       = Inl (Thrown ''Invalid state change action "stop". State at "ready".'')
   \<and> fsm_current (snd (fsm_fire ev_stop ready_bot)) = ready
   \<and> io_emitted (snd (fsm_fire ev_stop ready_bot)) = io_emitted ready_bot\<close>
proof -
  have u: "\<forall>t. \<not> declared (fsm_current ready_bot) ev_stop t"
    by (simp add: ready_bot_state declared_def events_def)
  show ?thesis
    using u undeclared_event_throws [OF u] by (simp add: ready_bot_state)
qed

section \<open>Lifecycle commands\<close>

text \<open>
  C7. A command other than \<open>createVirtualBot\<close>, \<open>destroyVirtualBot\<close>, \<open>connect\<close> and
  \<open>disconnect\<close> is rejected with the message that names it as not supported, and the Bot
  (its fields, the state of its machine, what it has sent and logged) is as before.
\<close>

theorem processCommand_unsupported:
  \<open>command \<notin> {''createVirtualBot'', ''destroyVirtualBot'', ''connect'', ''disconnect''} \<Longrightarrow>
   processCommand command b
     = (Inl (Thrown (''Command "'' @ command @ ''" is not supported.'')), b)\<close>
  by (simp add: processCommand_def)

theorem processCommand_unsupported_witness:
  \<open>''start'' \<notin> {''createVirtualBot'', ''destroyVirtualBot'', ''connect'', ''disconnect''}
   \<and> processCommand ''start'' new_bot
       = (Inl (Thrown ''Command "start" is not supported.''), new_bot)\<close>
  using processCommand_unsupported [of "''start''" new_bot] by simp

lemma fsm_fire_virtual: "virtual (snd (fsm_fire e b)) = virtual b"
  by (simp add: fsm_fire_def fsm_error_def onenterstate_def Let_def split: option.splits)

lemma detect_try_virtual: "virtual (snd (detect_try b)) = virtual b"
  by (simp add: detect_try_def fsm_fire_virtual)

lemma detect_virtual: "virtual (snd (detect b)) = virtual b"
proof (cases "fsm_fire ev_detect b")
  case (Pair r b1)
  then have v1: "virtual b1 = virtual b"
    using fsm_fire_virtual [of ev_detect b] by simp
  show ?thesis
  proof (cases r)
    case (Inl x)
    with Pair v1 show ?thesis by (simp add: detect_def)
  next
    case (Inr u)
    obtain r2 b2 where t: "detect_try b1 = (r2, b2)" by (cases "detect_try b1")
    then have v2: "virtual b2 = virtual b1"
      using detect_try_virtual [of b1] by simp
    show ?thesis
      using Pair Inr t v1 v2 by (cases r2) (simp_all add: detect_def fsm_fire_virtual)
  qed
qed

lemma lookup_to_unplug: "lookup_to ev_unplug s = Some unavailable"
  by (rule lookup_to_declared) (simp add: declared_def events_def)

lemma unplug_ok: "fst (unplug b) = Inr ()"
  by (simp add: unplug_def fsm_fire_def lookup_to_unplug)

lemma virtual_after_create: "virtual (snd (processCommand ''createVirtualBot'' b))"
  by (simp add: processCommand_def Let_def detect_virtual)

lemma virtual_after_destroy: "\<not> virtual (snd (processCommand ''destroyVirtualBot'' b))"
  using unplug_ok [of b]
  by (auto simp: processCommand_def Let_def split: prod.splits sum.splits)

lemma virtual_bot_state: "virtual virtual_bot \<and> fsm_current virtual_bot = ready"
  by (simp add: virtual_bot_def processCommand_def new_bot_def detect_def detect_try_def
      fsm_fire_def lookup_to_def events_def onenterstate_def Let_def)

text \<open>
  C9. \<open>createVirtualBot\<close> on a Bot that is virtual, and \<open>destroyVirtualBot\<close> on one that
  is not, return the description of the Bot and leave the Bot as it is: no transition, no
  field changed. So each of the two commands, issued a second time, changes nothing.
\<close>

theorem virtual_commands_idempotent:
  "(virtual b \<longrightarrow> processCommand ''createVirtualBot'' b = (Inr (getBot b), b))
   \<and> (\<not> virtual b \<longrightarrow> processCommand ''destroyVirtualBot'' b = (Inr (getBot b), b))
   \<and> processCommand ''createVirtualBot'' (snd (processCommand ''createVirtualBot'' b))
       = (Inr (getBot (snd (processCommand ''createVirtualBot'' b))),
          snd (processCommand ''createVirtualBot'' b))
   \<and> processCommand ''destroyVirtualBot'' (snd (processCommand ''destroyVirtualBot'' b))
       = (Inr (getBot (snd (processCommand ''destroyVirtualBot'' b))),
          snd (processCommand ''destroyVirtualBot'' b))"
proof -
  have create: "processCommand ''createVirtualBot'' x = (Inr (getBot x), x)"
    if "virtual x" for x
    using that by (simp add: processCommand_def)
  have destroy: "processCommand ''destroyVirtualBot'' x = (Inr (getBot x), x)"
    if "\<not> virtual x" for x
    using that by (simp add: processCommand_def)
  show ?thesis
    using create destroy virtual_after_create virtual_after_destroy by blast
qed

theorem virtual_commands_idempotent_witness:
  "processCommand ''createVirtualBot'' virtual_bot = (Inr \<lparr> state = ready \<rparr>, virtual_bot)
   \<and> processCommand ''destroyVirtualBot'' new_bot = (Inr \<lparr> state = unavailable \<rparr>, new_bot)"
proof -
  have "\<not> virtual new_bot" "fsm_current new_bot = unavailable"
    by (simp_all add: new_bot_def)
  then show ?thesis
    using virtual_commands_idempotent [of virtual_bot] virtual_commands_idempotent [of new_bot]
      virtual_bot_state
    by (simp add: getBot_def)
qed

section \<open>Streaming a job file\<close>

lemma lookup_to_job [simp]:
  "lookup_to ev_start connected = Some startingJob"
  "lookup_to ev_startDone startingJob = Some processingJob"
  "lookup_to ev_stop processingJob = Some stopping"
  "lookup_to ev_stopDone stopping = Some connected"
  by (simp_all add: lookup_to_def events_def)

lemma onenterstate_fields [simp]:
  "queue (onenterstate ev f t b) = queue b"
  "currentJob (onenterstate ev f t b) = currentJob b"
  "lr (onenterstate ev f t b) = lr b"
  "currentLine (onenterstate ev f t b) = currentLine b"
  "numLines (onenterstate ev f t b) = numLines b"
  "fsm_current (onenterstate ev f t b) = fsm_current b"
  by (simp_all add: onenterstate_def)

lemma on_line_running:
  assumes "\<not> reader_paused b" "queue b = Some q" "currentJob b = Some j"
    "job_fsm_current j = job_running" "currentLine b = Some c"
  shows "\<not> reader_paused (snd (on_line l b))
    \<and> queue (snd (on_line l b)) = Some (q @ map raw (filter (\<lambda>s. s \<noteq> []) [strip_comment l]))
    \<and> currentJob (snd (on_line l b)) = Some j
    \<and> currentLine (snd (on_line l b)) = Some (Suc c)
    \<and> numLines (snd (on_line l b)) = numLines b
    \<and> fsm_current (snd (on_line l b)) = fsm_current b"
  using assms
  by (auto simp: on_line_def reader_paused_def lr_set_paused_def strippedLine_eq Let_def
      queueCommands_def split: option.splits)

lemma emit_lines_running:
  assumes "\<not> reader_paused b" "queue b = Some q" "currentJob b = Some j"
    "job_fsm_current j = job_running" "currentLine b = Some c"
  shows "fst (emit_lines ls b) = []
    \<and> \<not> reader_paused (snd (emit_lines ls b))
    \<and> queue (snd (emit_lines ls b))
        = Some (q @ map raw (filter (\<lambda>s. s \<noteq> []) (map strip_comment ls)))
    \<and> currentJob (snd (emit_lines ls b)) = Some j
    \<and> currentLine (snd (emit_lines ls b)) = Some (c + length ls)
    \<and> numLines (snd (emit_lines ls b)) = numLines b
    \<and> fsm_current (snd (emit_lines ls b)) = fsm_current b"
  using assms
proof (induction ls arbitrary: b q c)
  case Nil
  then show ?case by simp
next
  case (Cons l ls)
  note step = on_line_running [OF Cons.prems, of l]
  have ih: "fst (emit_lines ls (snd (on_line l b))) = []
    \<and> \<not> reader_paused (snd (emit_lines ls (snd (on_line l b))))
    \<and> queue (snd (emit_lines ls (snd (on_line l b))))
        = Some ((q @ map raw (filter (\<lambda>s. s \<noteq> []) [strip_comment l])) @
                map raw (filter (\<lambda>s. s \<noteq> []) (map strip_comment ls)))
    \<and> currentJob (snd (emit_lines ls (snd (on_line l b)))) = Some j
    \<and> currentLine (snd (emit_lines ls (snd (on_line l b)))) = Some (Suc c + length ls)
    \<and> numLines (snd (emit_lines ls (snd (on_line l b)))) = numLines (snd (on_line l b))
    \<and> fsm_current (snd (emit_lines ls (snd (on_line l b)))) = fsm_current (snd (on_line l b))"
    by (rule Cons.IH) (use step Cons.prems(4) in simp_all)
  show ?case
    using Cons.prems(1) ih step by simp
qed

lemma startJob_connected:
  assumes "fsm_current b = connected" "files (fileId j) = Some (path, chunks)"
  shows "fst (startJob files j b) = Inr ()
    \<and> lr (snd (startJob files j b))
        = Some \<lparr> lr_path = path, lr_lines = lr_split (concat chunks), lr_paused = False \<rparr>
    \<and> queue (snd (startJob files j b)) = queue b
    \<and> currentJob (snd (startJob files j b)) = Some j
    \<and> currentLine (snd (startJob files j b)) = Some 0
    \<and> numLines (snd (startJob files j b)) = Some (prescan chunks)
    \<and> fsm_current (snd (startJob files j b)) = processingJob"
  using assms
  by (simp add: startJob_def fsm_fire_ok lr_set_paused_def Let_def)

lemma startJob_no_file:
  assumes "fsm_current b = connected" "files (fileId j) = None"
  shows "fst (startJob files j b) = Inl TypeError
    \<and> fsm_current (snd (startJob files j b)) = startingJob"
  using assms
  by (simp add: startJob_def fsm_fire_ok)

lemma on_end_processing:
  assumes "fsm_current b = processingJob" "lr b = Some r" "currentJob b = Some j"
  shows "fst (on_end b) = Inr ()
    \<and> queue (snd (on_end b)) = queue b
    \<and> currentLine (snd (on_end b)) = currentLine b
    \<and> numLines (snd (on_end b)) = numLines b
    \<and> fsm_current (snd (on_end b)) = connected"
  using assms
  by (simp add: on_end_def fsm_fire_ok lr_close_def Let_def)

lemma lr_run_running:
  assumes "fsm_current b = processingJob" "lr b = Some r" "\<not> lr_paused r"
    "queue b = Some q" "currentJob b = Some j" "job_fsm_current j = job_running"
    "currentLine b = Some 0"
  shows "queue (lr_run b)
        = Some (q @ map raw (filter (\<lambda>s. s \<noteq> []) (map strip_comment (lr_lines r))))
    \<and> currentLine (lr_run b) = Some (length (lr_lines r))
    \<and> numLines (lr_run b) = numLines b
    \<and> fsm_current (lr_run b) = connected"
proof -
  have np: "\<not> reader_paused b"
    using assms(2,3) by (simp add: reader_paused_def)
  obtain rest b1 where e: "emit_lines (lr_lines r) b = (rest, b1)"
    by (cases "emit_lines (lr_lines r) b")
  from emit_lines_running [OF np assms(4,5,6,7), of "lr_lines r"] e
  have f: "rest = []" "\<not> reader_paused b1"
    "queue b1 = Some (q @ map raw (filter (\<lambda>s. s \<noteq> []) (map strip_comment (lr_lines r))))"
    "currentJob b1 = Some j" "currentLine b1 = Some (length (lr_lines r))"
    "numLines b1 = numLines b" "fsm_current b1 = processingJob"
    using assms(1) by simp_all
  from f(2) obtain r1 where r1: "lr b1 = Some r1" "\<not> lr_paused r1"
    by (auto simp: reader_paused_def split: option.splits)
  define b2 where "b2 = b1\<lparr>lr := Some (r1\<lparr>lr_lines := []\<rparr>)\<rparr>"
  have b2: "fsm_current b2 = processingJob" "lr b2 = Some (r1\<lparr>lr_lines := []\<rparr>)"
    "currentJob b2 = Some j" "\<not> reader_paused b2" "queue b2 = queue b1"
    "currentLine b2 = currentLine b1" "numLines b2 = numLines b1"
    using f r1 by (simp_all add: b2_def reader_paused_def)
  have run: "lr_run b = snd (on_end b2)"
    using assms(2) e f(1) r1 b2(4) by (simp add: lr_run_def b2_def Let_def)
  show ?thesis
    using on_end_processing [OF b2(1,2,3)] b2 f by (simp add: run)
qed

lemma runJob_running:
  assumes "fsm_current b = connected" "queue b = Some q"
    "files (fileId j) = Some (path, chunks)" "job_fsm_current j = job_running"
  shows "fst (runJob files j b) = Inr ()
    \<and> queue (snd (runJob files j b))
        = Some (q @ map raw (filter (\<lambda>s. s \<noteq> [])
                               (map strip_comment (lr_split (concat chunks)))))
    \<and> currentLine (snd (runJob files j b)) = Some (length (lr_split (concat chunks)))
    \<and> numLines (snd (runJob files j b)) = Some (prescan chunks)
    \<and> fsm_current (snd (runJob files j b)) = connected"
proof -
  note sj = startJob_connected [where files = files and j = j and b = b, OF assms(1,3)]
  obtain b1 where s: "startJob files j b = (Inr (), b1)"
    using sj by (cases "startJob files j b") auto
  from sj s assms(2)
  have b1: "fsm_current b1 = processingJob"
    "lr b1 = Some \<lparr> lr_path = path, lr_lines = lr_split (concat chunks), lr_paused = False \<rparr>"
    "queue b1 = Some q" "currentJob b1 = Some j" "currentLine b1 = Some 0"
    "numLines b1 = Some (prescan chunks)"
    by simp_all
  have "runJob files j b = (Inr (), lr_run b1)"
    by (simp add: runJob_def s)
  then show ?thesis
    using lr_run_running [OF b1(1,2) _ b1(3,4) assms(4) b1(5)] b1(6) by simp
qed

lemma connected_bot_state:
  "fsm_current connected_bot = connected \<and> queue connected_bot = Some [open_directive]"
  by (simp add: connected_bot_def processCommand_def connect_def connect_try_def
      new_bot_def detect_def detect_try_def new_CommandQueue_def queueCommands_def
      fsm_fire_def lookup_to_def events_def onenterstate_def Let_def)

text \<open>
  A Bot in \<open>connected\<close> that has a CommandQueue starts a job that is running, on a file
  the catalog knows. With N the number of lines the line source delivers and K the
  number of those that are not empty after comment stripping, the run ends without an
  exception, the CommandQueue has received exactly those K stripped lines after what it
  held, in the order of the file, and the line cursor is N.
\<close>

theorem runJob_forwards_commands:
  assumes "fsm_current b = connected" "queue b = Some q"
    "files (fileId j) = Some (path, chunks)" "job_fsm_current j = job_running"
  shows "fst (runJob files j b) = Inr ()
    \<and> queue (snd (runJob files j b))
        = Some (q @ map raw (filter (\<lambda>s. s \<noteq> [])
                               (map strip_comment (lr_split (concat chunks)))))
    \<and> currentLine (snd (runJob files j b)) = Some (length (lr_split (concat chunks)))"
  using runJob_running [where files = files, OF assms] by simp

theorem runJob_forwards_commands_witness:
  "fsm_current connected_bot = connected
   \<and> queue connected_bot = Some [open_directive]
   \<and> job_fsm_current (running_job 1) = job_running
   \<and> fst (runJob example_catalog (running_job 1) connected_bot) = Inr ()
   \<and> queue (snd (runJob example_catalog (running_job 1) connected_bot))
       = Some [open_directive, raw ''G28'', raw ''G1 X10 '', raw ''M84'']
   \<and> currentLine (snd (runJob example_catalog (running_job 1) connected_bot)) = Some 5"
proof -
  have c: "fsm_current connected_bot = connected" "queue connected_bot = Some [open_directive]"
    using connected_bot_state by simp_all
  have f: "example_catalog (fileId (running_job 1))
      = Some (''/files/five.gcode'',
              [''G28'' @ [LF] @ ''; home first'' @ [LF] @ [LF] @ ''G1 X10 ; move'' @ [LF] @
               ''M84'' @ [LF]])"
    by (simp add: example_catalog_def running_job_def)
  have r: "job_fsm_current (running_job 1) = job_running"
    by (simp add: running_job_def)
  show ?thesis
    using c r runJob_forwards_commands [where files = example_catalog, OF c f r]
    by (simp add: lr_split_def LF_def CR_def strip_comment_def)
qed

lemma connected_virtual_bot_state:
  "virtual connected_virtual_bot \<and> fsm_current connected_virtual_bot = connected
   \<and> queue connected_virtual_bot = None"
  by (simp add: connected_virtual_bot_def virtual_bot_def processCommand_def
      connect_def connect_try_def delay_done_def connect_resume_def
      new_bot_def detect_def detect_try_def
      fsm_fire_def lookup_to_def events_def onenterstate_def Let_def)

lemma on_line_without_queue:
  assumes "\<not> reader_paused b" "queue b = None" "currentLine b = Some c" "strip_comment l \<noteq> []"
  shows "fst (on_line l b) = Inl TypeError
    \<and> reader_paused (snd (on_line l b))
    \<and> queue (snd (on_line l b)) = None
    \<and> currentLine (snd (on_line l b)) = Some (Suc c)
    \<and> numLines (snd (on_line l b)) = numLines b
    \<and> fsm_current (snd (on_line l b)) = fsm_current b"
  using assms
  by (auto simp: on_line_def reader_paused_def lr_set_paused_def strippedLine_eq Let_def
      split: option.splits)

lemma emit_lines_paused: "reader_paused b \<Longrightarrow> emit_lines ls b = (ls, b)"
  by (cases ls) simp_all

lemma lr_run_without_queue:
  assumes "lr b = Some r" "\<not> lr_paused r" "queue b = None" "currentLine b = Some 0"
    "lr_lines r = l # ls" "strip_comment l \<noteq> []"
  shows "queue (lr_run b) = None
    \<and> currentLine (lr_run b) = Some 1
    \<and> numLines (lr_run b) = numLines b
    \<and> fsm_current (lr_run b) = fsm_current b
    \<and> reader_paused (lr_run b)"
proof -
  have np: "\<not> reader_paused b"
    using assms(1,2) by (simp add: reader_paused_def)
  note step = on_line_without_queue [OF np assms(3,4,6)]
  define b1 where "b1 = snd (on_line l b)"
  have e: "emit_lines (lr_lines r) b = (ls, b1)"
    using np step by (simp add: assms(5) b1_def emit_lines_paused)
  define b2 where
    "b2 = (case lr b1 of None \<Rightarrow> b1 | Some r1 \<Rightarrow> b1\<lparr>lr := Some (r1\<lparr>lr_lines := ls\<rparr>)\<rparr>)"
  have b2: "queue b2 = queue b1" "currentLine b2 = currentLine b1" "numLines b2 = numLines b1"
    "fsm_current b2 = fsm_current b1" "reader_paused b2"
    using step by (auto simp: b2_def b1_def reader_paused_def split: option.splits)
  have run: "lr_run b = b2"
    using assms(1) e b2(5) by (simp add: lr_run_def b2_def [symmetric] Let_def)
  show ?thesis
    using step b2 by (simp add: run b1_def)
qed

text \<open>
  C4. The claim is made for every job file and every Bot. The virtual Bot, created,
  connected and past the delay of \<open>connect\<close>, has no CommandQueue: \<open>detect\<close> builds one
  only for a physical Bot. On the file of five lines with three commands, the handler of
  the first line throws at \<open>self.queue.queueCommands\<close> with the line source paused: no
  command is forwarded, the line cursor stays at 1 of 5, and the machine stays in
  \<open>processingJob\<close>. For a Bot that has a CommandQueue the claim holds
  (\<open>runJob_forwards_commands\<close> above).
\<close>

theorem virtual_bot_job_stalls:
  "fst (runJob example_catalog (running_job 1) connected_virtual_bot) = Inr ()
   \<and> queue (snd (runJob example_catalog (running_job 1) connected_virtual_bot)) = None
   \<and> currentLine (snd (runJob example_catalog (running_job 1) connected_virtual_bot)) = Some 1
   \<and> numLines (snd (runJob example_catalog (running_job 1) connected_virtual_bot)) = Some 5
   \<and> fsm_current (snd (runJob example_catalog (running_job 1) connected_virtual_bot))
       = processingJob"
proof -
  have c: "fsm_current connected_virtual_bot = connected" "queue connected_virtual_bot = None"
    using connected_virtual_bot_state by simp_all
  have f: "example_catalog (fileId (running_job 1))
      = Some (''/files/five.gcode'',
              [''G28'' @ [LF] @ ''; home first'' @ [LF] @ [LF] @ ''G1 X10 ; move'' @ [LF] @
               ''M84'' @ [LF]])"
    by (simp add: example_catalog_def running_job_def)
  note sj = startJob_connected [where files = example_catalog, OF c(1) f]
  obtain b1 where s: "startJob example_catalog (running_job 1) connected_virtual_bot = (Inr (), b1)"
    using sj by (cases "startJob example_catalog (running_job 1) connected_virtual_bot") auto
  have l: "lr_split (concat [''G28'' @ [LF] @ ''; home first'' @ [LF] @ [LF] @
                             ''G1 X10 ; move'' @ [LF] @ ''M84'' @ [LF]])
      = [''G28'', ''; home first'', [], ''G1 X10 ; move'', ''M84'']"
    by (simp add: lr_split_def LF_def CR_def)
  have p: "prescan [''G28'' @ [LF] @ ''; home first'' @ [LF] @ [LF] @
                    ''G1 X10 ; move'' @ [LF] @ ''M84'' @ [LF]] = 5"
    by (simp add: prescan_def count_separators.simps CR_def LF_def)
  from sj s c(2) l p
  have b1: "lr b1 = Some \<lparr> lr_path = ''/files/five.gcode'',
                            lr_lines = [''G28'', ''; home first'', [], ''G1 X10 ; move'', ''M84''],
                            lr_paused = False \<rparr>"
    "queue b1 = None" "currentLine b1 = Some 0" "numLines b1 = Some 5"
    "fsm_current b1 = processingJob"
    by simp_all
  have g: "strip_comment ''G28'' \<noteq> []"
    by (simp add: strip_comment_def)
  have "runJob example_catalog (running_job 1) connected_virtual_bot = (Inr (), lr_run b1)"
    by (simp only: runJob_def s prod.case sum.case)
  then show ?thesis
    using lr_run_without_queue [OF b1(1) _ b1(2,3) _ g] b1(4,5) by simp
qed

lemma connect_failure_drives_connectFail:
  assumes "fsm_current b = ready" "\<not> virtual b" "queue b = None"
  shows "fsm_current (snd (connect b)) = ready"
proof -
  have l: "lookup_to ev_connect ready = Some connecting"
    "lookup_to ev_connectFail connecting = Some ready"
    by (simp_all add: lookup_to_def events_def)
  show ?thesis
    using assms l by (simp add: connect_def connect_try_def fsm_fire_ok onenterstate_def)
qed

lemma stopJob_processing:
  assumes "fsm_current b = processingJob" "lr b = Some r"
  shows "fst (stopJob b) = Inr () \<and> fsm_current (snd (stopJob b)) = connected
    \<and> lr (snd (stopJob b)) = None"
  using assms by (simp add: stopJob_def fsm_fire_ok lr_close_def)

lemma resumeJob_without_reader:
  assumes "fsm_current b = connected" "lr b = None"
  shows "fst (resumeJob b) = Inl TypeError \<and> fsm_current (snd (resumeJob b)) = startingJob"
  using assms by (simp add: resumeJob_def fsm_fire_ok lr_set_paused_def)

text \<open>
  C6. \<open>connect\<close> drives \<open>connectFail\<close> when its work throws, as the lemma above shows for
  a physical Bot without a CommandQueue. \<open>startJob\<close> has no \<open>try\<close>: when the look-up of
  the file throws after \<open>start\<close>, the exception leaves \<open>startJob\<close> and the machine stays
  in \<open>startingJob\<close>; \<open>startFail\<close> is not driven. \<open>resumeJob\<close> has none either: after
  \<open>stopJob\<close> has dropped the line source, \<open>resumeJob\<close> drives \<open>start\<close>, throws at
  \<open>this.lr.resume()\<close> and leaves the machine in \<open>startingJob\<close>.
\<close>

theorem startJob_failure_parks:
  "fst (startJob example_catalog (running_job 3) connected_bot) = Inl TypeError
   \<and> fsm_current (snd (startJob example_catalog (running_job 3) connected_bot)) = startingJob
   \<and> fst (resumeJob (snd (stopJob (snd (startJob example_catalog (running_job 1) connected_bot)))))
       = Inl TypeError
   \<and> fsm_current
        (snd (resumeJob (snd (stopJob (snd (startJob example_catalog (running_job 1) connected_bot))))))
       = startingJob"
proof -
  have n: "example_catalog (fileId (running_job 3)) = None"
    by (simp add: example_catalog_def running_job_def)
  have f: "example_catalog (fileId (running_job 1))
      = Some (''/files/five.gcode'',
              [''G28'' @ [LF] @ ''; home first'' @ [LF] @ [LF] @ ''G1 X10 ; move'' @ [LF] @
               ''M84'' @ [LF]])"
    by (simp add: example_catalog_def running_job_def)
  have c: "fsm_current connected_bot = connected"
    using connected_bot_state by simp
  note started = startJob_connected [where files = example_catalog, OF c f]
  have stopped: "fsm_current (snd (stopJob (snd (startJob example_catalog (running_job 1) connected_bot)))) = connected"
    "lr (snd (stopJob (snd (startJob example_catalog (running_job 1) connected_bot)))) = None"
    using stopJob_processing started by simp_all
  show ?thesis
    using startJob_no_file [where files = example_catalog, OF c n]
      resumeJob_without_reader [OF stopped]
    by simp
qed

text \<open>
  C8. For the file that holds \<open>G1\<close> and no line end, the pre-scan counts 0 lines and the
  line source delivers one line: the job ends with the line cursor at 1, above the
  total line count 0.
\<close>

theorem cursor_exceeds_numLines:
  "currentLine (snd (runJob example_catalog (running_job 2) connected_bot)) = Some 1
   \<and> numLines (snd (runJob example_catalog (running_job 2) connected_bot)) = Some 0"
proof -
  have c: "fsm_current connected_bot = connected" "queue connected_bot = Some [open_directive]"
    using connected_bot_state by simp_all
  have f: "example_catalog (fileId (running_job 2)) = Some (''/files/one.gcode'', [''G1''])"
    by (simp add: example_catalog_def running_job_def)
  have r: "job_fsm_current (running_job 2) = job_running"
    by (simp add: running_job_def)
  have p: "prescan [''G1''] = 0"
    by (simp add: prescan_def count_separators.simps CR_def LF_def)
  show ?thesis
    using runJob_running [where files = example_catalog, OF c f r] p
    by (simp add: lr_split_def LF_def CR_def)
qed

end
